theory Spec2Isabelle
  imports Main "HOL-Library.Word" "HOL-Library.Sublist"
begin

unbundle bit_operations_syntax

section \<open>LobsterTCG tools: the sound-effect extraction script\<close>

text \<open>
  A shallow embedding of \<^verbatim>\<open>src/tools/extract_sfx.py\<close>. The script drives a Game Boy
  emulator (PyBoy), triggers each sound effect of a fixed catalog by writing to the
  game's memory, records the emulator's audio output tick by tick, trims silence and
  hands the buffer to an external encoder.

  The emulator, the file system and the encoder are not code of the script; they are
  a parameter of the model (the record \<open>platform\<close> below). Everything the script
  itself computes is translated function by function, with the source's names.

  The script raises no exception of its own and catches one, the \<^verbatim>\<open>FileNotFoundError\<close>
  of the encoder probe, which is a branch of the model. A call on the platform is taken to
  return: an exception that the emulator, the file system or \<^verbatim>\<open>subprocess.run\<close> may
  raise elsewhere ends the run with a traceback and is not modelled, nor are the parsing
  of the command line and the exit at import time when PyBoy is not installed.
\<close>

subsection \<open>Constants\<close>

type_synonym addr = "16 word"
type_synonym byte = "8 word"
type_synonym int8 = "8 word"
type_synonym int16 = "16 word"

text \<open>A row of the emulator's sound array: one stereo frame of signed 8-bit samples.\<close>

type_synonym frame = "int8 \<times> int8"
type_synonym frame16 = "int16 \<times> int16"

definition ADDR_CUR_SFX_ID :: addr where "ADDR_CUR_SFX_ID = 0xDD82"
definition ADDR_SFX_PRIORITY :: addr where "ADDR_SFX_PRIORITY = 0xDD83"
definition ADDR_CUR_SONG_ID :: addr where "ADDR_CUR_SONG_ID = 0xDD80"
definition ADDR_MUSIC_PAUSE :: addr where "ADDR_MUSIC_PAUSE = 0xDDF2"

definition SAMPLE_RATE :: int where "SAMPLE_RATE = 44100"

definition ADDR_NR10 :: addr where "ADDR_NR10 = 0xFF10"
definition ADDR_NR11 :: addr where "ADDR_NR11 = 0xFF11"
definition ADDR_NR12 :: addr where "ADDR_NR12 = 0xFF12"
definition ADDR_NR14 :: addr where "ADDR_NR14 = 0xFF14"
definition ADDR_NR21 :: addr where "ADDR_NR21 = 0xFF16"
definition ADDR_NR22 :: addr where "ADDR_NR22 = 0xFF17"
definition ADDR_NR24 :: addr where "ADDR_NR24 = 0xFF19"
definition ADDR_NR30 :: addr where "ADDR_NR30 = 0xFF1A"
definition ADDR_NR42 :: addr where "ADDR_NR42 = 0xFF21"
definition ADDR_NR44 :: addr where "ADDR_NR44 = 0xFF23"
definition ADDR_NR50 :: addr where "ADDR_NR50 = 0xFF24"
definition ADDR_NR51 :: addr where "ADDR_NR51 = 0xFF25"

subsection \<open>The effect catalog\<close>

text \<open>\<open>SFX_LIST\<close>: one triple (id, name, estimated frames) per effect, in the source's order.\<close>

definition SFX_LIST :: "(byte \<times> string \<times> int) list" where
  "SFX_LIST =
  [(0x01, ''cursor'', 15),
   (0x02, ''confirm'', 20),
   (0x03, ''cancel'', 20),
   (0x04, ''denied'', 30),
   (0x05, ''unused_05'', 30),
   (0x06, ''unused_06'', 30),
   (0x07, ''card_shuffle'', 60),
   (0x08, ''place_prize'', 45),
   (0x09, ''unused_09'', 30),
   (0x0A, ''unused_0a'', 30),
   (0x0B, ''coin_toss'', 45),
   (0x0C, ''warp'', 60),
   (0x0D, ''unused_0d'', 30),
   (0x0E, ''unused_0e'', 30),
   (0x0F, ''pokemon_dome_doors'', 90),
   (0x10, ''legendary_cards'', 120),
   (0x11, ''glow'', 60),
   (0x12, ''paralysis'', 45),
   (0x13, ''sleep'', 60),
   (0x14, ''confusion'', 60),
   (0x15, ''poison'', 45),
   (0x16, ''single_hit'', 30),
   (0x17, ''big_hit'', 45),
   (0x18, ''thunder_shock'', 45),
   (0x19, ''lightning'', 60),
   (0x1A, ''border_spark'', 45),
   (0x1B, ''big_lightning'', 90),
   (0x1C, ''small_flame'', 45),
   (0x1D, ''big_flame'', 60),
   (0x1E, ''fire_spin'', 90),
   (0x1F, ''dive_bomb'', 60),
   (0x20, ''water_jets'', 60),
   (0x21, ''water_gun'', 45),
   (0x22, ''whirlpool'', 90),
   (0x23, ''hydro_pump'', 90),
   (0x24, ''blizzard'', 90),
   (0x25, ''psychic'', 60),
   (0x26, ''leer'', 45),
   (0x27, ''beam'', 60),
   (0x28, ''hyper_beam'', 120),
   (0x29, ''rock_throw'', 45),
   (0x2A, ''stone_barrage'', 60),
   (0x2B, ''punch'', 30),
   (0x2C, ''stretch_kick'', 45),
   (0x2D, ''slash'', 30),
   (0x2E, ''sonicboom'', 60),
   (0x2F, ''fury_swipes'', 60),
   (0x30, ''drill'', 90),
   (0x31, ''pot_smash'', 45),
   (0x32, ''bonemerang'', 60),
   (0x33, ''seismic_toss'', 90),
   (0x34, ''needles'', 45),
   (0x35, ''white_gas'', 60),
   (0x36, ''powder'', 45),
   (0x37, ''goo'', 60),
   (0x38, ''bubbles'', 60),
   (0x39, ''string_shot'', 60),
   (0x3A, ''boyfriends'', 60),
   (0x3B, ''lure'', 45),
   (0x3C, ''toxic'', 60),
   (0x3D, ''confuse_ray'', 60),
   (0x3E, ''sing'', 90),
   (0x3F, ''supersonic'', 60),
   (0x40, ''petal_dance'', 90),
   (0x41, ''protect'', 60),
   (0x42, ''barrier'', 60),
   (0x43, ''speed'', 45),
   (0x44, ''whirlwind'', 60),
   (0x45, ''cry'', 45),
   (0x46, ''question_mark'', 30),
   (0x47, ''selfdestruct'', 90),
   (0x48, ''big_selfdestruct'', 120),
   (0x49, ''heal'', 60),
   (0x4A, ''drain'', 60),
   (0x4B, ''dark_gas'', 60),
   (0x4C, ''healing_wind'', 90),
   (0x4D, ''bench_whirlwind'', 60),
   (0x4E, ''expand'', 60),
   (0x4F, ''cat_punch'', 45),
   (0x50, ''thunder_wave'', 60),
   (0x51, ''firegiver'', 120),
   (0x52, ''thunderpunch'', 60),
   (0x53, ''fire_punch'', 60),
   (0x54, ''coin_toss_heads'', 30),
   (0x55, ''coin_toss_tails'', 30),
   (0x56, ''save_game'', 60),
   (0x57, ''player_walk_map'', 30),
   (0x58, ''intro_orb'', 90),
   (0x59, ''intro_orb_swoop'', 60),
   (0x5A, ''intro_orb_title'', 90),
   (0x5B, ''intro_orb_scatter'', 60),
   (0x5C, ''firegiver_start'', 60),
   (0x5D, ''receive_card_pop'', 120),
   (0x5E, ''pokemon_evolution'', 120),
   (0x5F, ''unused_5f'', 30)]"

subsection \<open>The platform: emulator, file system and encoder\<close>

text \<open>
  The world \<open>'w\<close> holds the state of everything outside the script: the emulated
  machine, the file system, the encoder. The script reaches it only through the calls
  below; what they do is a parameter of every definition that follows.
\<close>

record 'w platform =
  path_exists :: "'w \<Rightarrow> string \<Rightarrow> bool"
    \<comment> \<open>\<^verbatim>\<open>os.path.exists(path)\<close>\<close>
  expanduser :: "string \<Rightarrow> string"
    \<comment> \<open>\<^verbatim>\<open>os.path.expanduser(path)\<close>\<close>
  ffmpeg_version :: "'w \<Rightarrow> int option"
    \<comment> \<open>\<^verbatim>\<open>subprocess.run(['ffmpeg', '-version'])\<close>: the return code, \<open>None\<close> when it raises FileNotFoundError\<close>
  makedirs :: "'w \<Rightarrow> string \<Rightarrow> 'w"
    \<comment> \<open>\<^verbatim>\<open>os.makedirs(path, exist_ok=True)\<close>\<close>
  PyBoy :: "'w \<Rightarrow> string \<Rightarrow> 'w"
    \<comment> \<open>the emulator's constructor: headless, sound emulated at \<open>SAMPLE_RATE\<close>\<close>
  tick :: "'w \<Rightarrow> 'w"
    \<comment> \<open>\<^verbatim>\<open>pyboy.tick()\<close>\<close>
  mem_set :: "'w \<Rightarrow> addr \<Rightarrow> byte \<Rightarrow> 'w"
    \<comment> \<open>\<^verbatim>\<open>pyboy.memory[a] = v\<close>\<close>
  mem_get :: "'w \<Rightarrow> addr \<Rightarrow> byte"
    \<comment> \<open>\<^verbatim>\<open>pyboy.memory[a]\<close>\<close>
  sound_ndarray :: "'w \<Rightarrow> frame list"
    \<comment> \<open>\<^verbatim>\<open>pyboy.sound.ndarray.copy()\<close>: the rows of the current audio buffer\<close>
  wave_write :: "'w \<Rightarrow> string \<Rightarrow> frame16 list \<Rightarrow> 'w"
    \<comment> \<open>the \<^verbatim>\<open>wave.open(filename, 'wb')\<close> block: 2 channels, 16 bit, \<open>SAMPLE_RATE\<close>\<close>
  subprocess_run :: "'w \<Rightarrow> string list \<Rightarrow> 'w \<times> int \<times> string"
    \<comment> \<open>\<^verbatim>\<open>subprocess.run(cmd, capture_output=True, text=True)\<close>: the world after it, the return code, stderr\<close>
  stop :: "'w \<Rightarrow> 'w"
    \<comment> \<open>\<^verbatim>\<open>pyboy.stop()\<close>\<close>
  rmtree :: "'w \<Rightarrow> string \<Rightarrow> 'w"
    \<comment> \<open>\<^verbatim>\<open>shutil.rmtree(path, ignore_errors=True)\<close>\<close>

text \<open>What the script prints, one constructor per \<^verbatim>\<open>print\<close> call of the source.\<close>

datatype message =
    Error_ROM_not_found string
  | Error_ffmpeg_not_found
  | Loading_ROM string
  | Initializing_game
  | Setting_music_pause_flag
  | Resetting_sound_channels
  | Skipping string
  | Extracting byte string
  | NO_AUDIO
  | OK int
  | CONVERT_FAILED
  | FFmpeg_error string
  | Extraction_complete
  | Extracted int
  | Failed nat
  | Failed_SFX "string list"

text \<open>
  Every call the script makes on the emulator, every file or directory operation and
  every encoder run leaves an event in the trace, in program order, so that a statement
  can say which calls were made and which were not. The two probes (\<open>path_exists\<close>,
  \<open>ffmpeg_version\<close>) only observe the world and leave none.
\<close>

datatype event =
    Tick
  | MemWrite addr byte
  | MemRead addr
  | SoundRead
  | MakeDirs string
  | LoadRom string
  | WaveWrite string "frame16 list"
  | RunFfmpeg "string list" int
  | Stop
  | RmTree string
  | Print message

text \<open>The state that \<open>extract_sfx\<close> threads through its loop.\<close>

record 'w run =
  world :: 'w
  trace :: "event list"
  extracted_count :: int
  failed :: "string list"

definition emit :: "event \<Rightarrow> 'w run \<Rightarrow> 'w run" where
  "emit e s = s\<lparr>trace := trace s @ [e]\<rparr>"

definition say :: "bool \<Rightarrow> message \<Rightarrow> 'w run \<Rightarrow> 'w run" where
  \<comment> \<open>\<^verbatim>\<open>if verbose: print(...)\<close>\<close>
  "say verbose m s = (if verbose then emit (Print m) s else s)"

definition do_tick :: "'w platform \<Rightarrow> 'w run \<Rightarrow> 'w run" where
  "do_tick P s = emit Tick (s\<lparr>world := tick P (world s)\<rparr>)"

definition do_write :: "'w platform \<Rightarrow> addr \<Rightarrow> byte \<Rightarrow> 'w run \<Rightarrow> 'w run" where
  "do_write P a v s = emit (MemWrite a v) (s\<lparr>world := mem_set P (world s) a v\<rparr>)"

fun ticks :: "'w platform \<Rightarrow> nat \<Rightarrow> 'w run \<Rightarrow> 'w run" where
  \<comment> \<open>\<^verbatim>\<open>for _ in range(n): pyboy.tick()\<close>\<close>
  "ticks P 0 s = s"
| "ticks P (Suc n) s = ticks P n (do_tick P s)"

subsection \<open>\<open>reset_sound_channels\<close>\<close>

definition reset_sound_channels :: "'w platform \<Rightarrow> 'w run \<Rightarrow> 'w run" where
  "reset_sound_channels P s =
     (let s = do_write P ADDR_NR12 0x00 s;
          s = do_write P ADDR_NR22 0x00 s;
          s = do_write P ADDR_NR42 0x00 s;
          s = do_write P ADDR_NR30 0x00 s;
          s = do_write P ADDR_NR14 0x80 s;
          s = do_write P ADDR_NR24 0x80 s;
          s = do_write P ADDR_NR44 0x80 s;
          s = do_write P ADDR_NR10 0x00 s;
          s = do_write P ADDR_NR11 0x00 s;
          s = do_write P ADDR_NR21 0x00 s;
          s = do_write P ADDR_NR50 0x77 s;
          s = do_write P ADDR_NR51 0xFF s
      in s)"

subsection \<open>\<open>check_ffmpeg\<close>, \<open>get_ffmpeg_path\<close>\<close>

definition check_ffmpeg :: "'w platform \<Rightarrow> 'w \<Rightarrow> bool" where
  "check_ffmpeg P w =
     (case ffmpeg_version P w of
        Some returncode \<Rightarrow> returncode = 0
      | None \<Rightarrow> path_exists P w (expanduser P ''~/bin/ffmpeg''))"

definition get_ffmpeg_path :: "'w platform \<Rightarrow> 'w \<Rightarrow> string" where
  "get_ffmpeg_path P w =
     (case ffmpeg_version P w of
        Some returncode \<Rightarrow> ''ffmpeg''
      | None \<Rightarrow> expanduser P ''~/bin/ffmpeg'')"

subsection \<open>\<open>samples_to_wav\<close>\<close>

text \<open>
  \<^verbatim>\<open>(samples.astype(np.int16) * 256).clip(-32768, 32767).astype(np.int16)\<close>, one sample
  at a time: the sign-extending cast, the multiplication in 16 bits, the clip.
\<close>

definition np_clip :: "int16 \<Rightarrow> int16 \<Rightarrow> int16 \<Rightarrow> int16" where
  "np_clip lo hi x = (if x <s lo then lo else if hi <s x then hi else x)"

definition widen :: "int8 \<Rightarrow> int16" where
  "widen s = np_clip (- 32768) 32767 (scast s * 256)"

definition samples_to_wav :: "'w platform \<Rightarrow> frame list \<Rightarrow> string \<Rightarrow> 'w run \<Rightarrow> 'w run" where
  "samples_to_wav P samples filename s =
     (let samples_16 = map (\<lambda>(l, r). (widen l, widen r)) samples
      in emit (WaveWrite filename samples_16)
           (s\<lparr>world := wave_write P (world s) filename samples_16\<rparr>))"

subsection \<open>\<open>wav_to_mp3\<close>\<close>

definition ffmpeg_cmd :: "string \<Rightarrow> string \<Rightarrow> string \<Rightarrow> string list" where
  "ffmpeg_cmd ffmpeg wav_path mp3_path =
     [ffmpeg, ''-y'', ''-i'', wav_path, ''-codec:a'', ''libmp3lame'',
      ''-qscale:a'', ''2'', ''-ar'', ''44100'', mp3_path]"

definition wav_to_mp3 :: "'w platform \<Rightarrow> string \<Rightarrow> string \<Rightarrow> 'w run \<Rightarrow> bool \<times> 'w run" where
  "wav_to_mp3 P wav_path mp3_path s =
     (let ffmpeg = get_ffmpeg_path P (world s);
          cmd = ffmpeg_cmd ffmpeg wav_path mp3_path;
          (w', returncode, stderr) = subprocess_run P (world s) cmd;
          s' = emit (RunFfmpeg cmd returncode) (s\<lparr>world := w'\<rparr>)
      in if returncode \<noteq> 0 then (False, emit (Print (FFmpeg_error stderr)) s')
         else (True, s'))"

subsection \<open>\<open>trim_silence\<close>\<close>

text \<open>
  The emulator's samples are signed 8-bit integers, and \<^verbatim>\<open>np.abs\<close> keeps the
  array's type: the negation is taken in 8 bits.
\<close>

definition np_abs :: "int8 \<Rightarrow> int8" where
  "np_abs x = (if x <s 0 then - x else x)"

definition np_max :: "int8 \<Rightarrow> int8 \<Rightarrow> int8" where
  "np_max x y = (if x <s y then y else x)"

definition abs_samples :: "frame list \<Rightarrow> int8 list" where
  \<comment> \<open>\<^verbatim>\<open>np.abs(samples).max(axis=1)\<close>\<close>
  "abs_samples samples = map (\<lambda>(l, r). np_max (np_abs l) (np_abs r)) samples"

definition non_silent :: "frame list \<Rightarrow> int \<Rightarrow> nat list" where
  \<comment> \<open>\<^verbatim>\<open>np.where(abs_samples > threshold)[0]\<close>: the indices, ascending\<close>
  "non_silent samples threshold =
     [i \<leftarrow> [0..<length (abs_samples samples)]. threshold < sint (abs_samples samples ! i)]"

definition py_index :: "nat \<Rightarrow> int \<Rightarrow> nat" where
  \<comment> \<open>how a slice bound is read against a sequence of length \<open>n\<close>\<close>
  "py_index n i = (if i < 0 then nat (max 0 (int n + i)) else min n (nat i))"

definition py_slice :: "'a list \<Rightarrow> int \<Rightarrow> int \<Rightarrow> 'a list" where
  \<comment> \<open>\<^verbatim>\<open>xs[a:b]\<close>\<close>
  "py_slice xs a b =
     take (py_index (length xs) b - py_index (length xs) a) (drop (py_index (length xs) a) xs)"

definition trim_silence :: "frame list \<Rightarrow> int \<Rightarrow> int \<Rightarrow> frame list" where
  "trim_silence samples threshold min_samples =
     (let ns = non_silent samples threshold
      in if length ns = 0 then py_slice samples 0 min_samples
         else
           let start = max 0 (int (hd ns) - 100);
               end' = min (int (length samples)) (int (last ns) + SAMPLE_RATE div 4);
               result = py_slice samples start end'
           in if int (length result) < min_samples then py_slice samples 0 min_samples
              else result)"

subsection \<open>\<open>extract_sfx\<close>\<close>

definition path_join :: "string \<Rightarrow> string \<Rightarrow> string" where
  \<comment> \<open>\<^verbatim>\<open>os.path.join(a, b)\<close> on POSIX\<close>
  "path_join a b =
     (if b \<noteq> [] \<and> hd b = CHR ''/'' then b
      else if a = [] \<or> last a = CHR ''/'' then a @ b
      else a @ ''/'' @ b)"

definition tick_and_sample ::
  "'w platform \<Rightarrow> 'w run \<times> frame list list \<Rightarrow> 'w run \<times> frame list list" where
  \<comment> \<open>\<^verbatim>\<open>pyboy.tick(); sound_arr = pyboy.sound.ndarray.copy(); if len(sound_arr) > 0: all_samples.append(sound_arr)\<close>\<close>
  "tick_and_sample P = (\<lambda>(s, all_samples).
     (let s = do_tick P s;
          sound_arr = sound_ndarray P (world s);
          s = emit SoundRead s
      in (s, if length sound_arr > 0 then all_samples @ [sound_arr] else all_samples)))"

fun tail_frames ::
  "'w platform \<Rightarrow> nat \<Rightarrow> 'w run \<times> frame list list \<Rightarrow> 'w run \<times> frame list list" where
  \<comment> \<open>the inner \<^verbatim>\<open>for _ in range(15)\<close>\<close>
  "tail_frames P 0 sa = sa"
| "tail_frames P (Suc n) sa = tail_frames P n (tick_and_sample P sa)"

fun record_frames ::
  "'w platform \<Rightarrow> nat \<Rightarrow> nat \<Rightarrow> 'w run \<times> frame list list \<Rightarrow> 'w run \<times> frame list list" where
  \<comment> \<open>\<^verbatim>\<open>for frame in range(frames_to_record)\<close>: the iterations left, the value of \<open>frame\<close>\<close>
  "record_frames P 0 frame sa = sa"
| "record_frames P (Suc n) frame sa =
     (let (s, all_samples) = tick_and_sample P sa
      in if 10 < frame then
           (let cur = mem_get P (world s) ADDR_CUR_SFX_ID;
                s = emit (MemRead ADDR_CUR_SFX_ID) s
            in if cur = 0x80 then tail_frames P 15 (s, all_samples)
               else record_frames P n (Suc frame) (s, all_samples))
         else record_frames P n (Suc frame) (s, all_samples))"

definition prepare :: "'w platform \<Rightarrow> bool \<Rightarrow> byte \<Rightarrow> string \<Rightarrow> 'w run \<Rightarrow> 'w run" where
  \<comment> \<open>the loop body from the line \<open>Extracting\<close> to the trigger\<close>
  "prepare P verbose sfx_id sfx_name s =
     (let s = say verbose (Extracting sfx_id sfx_name) s;
          s = do_write P ADDR_MUSIC_PAUSE 1 s;
          s = reset_sound_channels P s;
          s = do_write P ADDR_CUR_SFX_ID 0x80 s;
          s = do_write P ADDR_SFX_PRIORITY 0x00 s;
          s = ticks P 15 s;
          s = do_write P ADDR_SFX_PRIORITY 0xFF s;
          s = do_write P ADDR_CUR_SFX_ID sfx_id s
      in s)"

definition capture ::
  "'w platform \<Rightarrow> bool \<Rightarrow> byte \<times> string \<times> int \<Rightarrow> 'w run \<Rightarrow> 'w run \<times> frame list list" where
  \<comment> \<open>the loop body up to the end of the recording loop: the state and \<open>all_samples\<close>\<close>
  "capture P verbose = (\<lambda>(sfx_id, sfx_name, est_frames) s.
     (let s = prepare P verbose sfx_id sfx_name s;
          frames_to_record = est_frames + 30
      in record_frames P (nat frames_to_record) 0 (s, [])))"

definition encode ::
  "'w platform \<Rightarrow> string \<Rightarrow> string \<Rightarrow> bool \<Rightarrow> string \<Rightarrow> frame list list \<Rightarrow> 'w run \<Rightarrow> 'w run" where
  \<comment> \<open>the loop body from \<^verbatim>\<open>np.vstack\<close> on\<close>
  "encode P output_dir temp_dir verbose sfx_name all_samples s =
     (let audio_data = concat all_samples;
          audio_data = trim_silence audio_data 2 1000;
          wav_path = path_join temp_dir (sfx_name @ ''.wav'');
          mp3_path = path_join output_dir (sfx_name @ ''.mp3'');
          s = samples_to_wav P audio_data wav_path s;
          (converted, s) = wav_to_mp3 P wav_path mp3_path s
      in if converted then
           (let s = s\<lparr>extracted_count := extracted_count s + 1\<rparr>;
                duration_ms = int (length audio_data) * 1000 div SAMPLE_RATE
            in say verbose (OK duration_ms) s)
         else
           (let s = s\<lparr>failed := failed s @ [sfx_name]\<rparr>
            in say verbose CONVERT_FAILED s))"

definition extract_one ::
  "'w platform \<Rightarrow> string \<Rightarrow> string \<Rightarrow> bool \<Rightarrow> bool \<Rightarrow> byte \<times> string \<times> int \<Rightarrow> 'w run \<Rightarrow> 'w run" where
  \<comment> \<open>one pass through the body of \<^verbatim>\<open>for sfx_id, sfx_name, est_frames in SFX_LIST\<close>\<close>
  "extract_one P output_dir temp_dir skip_unused verbose = (\<lambda>(sfx_id, sfx_name, est_frames) s.
     if skip_unused \<and> prefix ''unused'' sfx_name then say verbose (Skipping sfx_name) s
     else
       (let (s, all_samples) = capture P verbose (sfx_id, sfx_name, est_frames) s
        in if all_samples = [] then
             (let s = say verbose NO_AUDIO s
              in s\<lparr>failed := failed s @ [sfx_name]\<rparr>)
           else encode P output_dir temp_dir verbose sfx_name all_samples s))"

fun extract_each ::
  "'w platform \<Rightarrow> string \<Rightarrow> string \<Rightarrow> bool \<Rightarrow> bool \<Rightarrow> (byte \<times> string \<times> int) list \<Rightarrow> 'w run \<Rightarrow> 'w run" where
  \<comment> \<open>the \<^verbatim>\<open>for\<close> loop over the catalog\<close>
  "extract_each P output_dir temp_dir skip_unused verbose [] s = s"
| "extract_each P output_dir temp_dir skip_unused verbose (e # es) s =
     extract_each P output_dir temp_dir skip_unused verbose es
       (extract_one P output_dir temp_dir skip_unused verbose e s)"






subsection \<open>Reference definitions for the statements\<close>

text \<open>
  The writes of the quiesce routine as the specification lists them: envelopes and the
  wave channel's DAC zeroed, the restart bit written, sweep and duty zeroed, master
  volume and panning set.
\<close>

definition reset_writes :: "(addr \<times> byte) list" where
  "reset_writes =
     [(ADDR_NR12, 0x00), (ADDR_NR22, 0x00), (ADDR_NR42, 0x00), (ADDR_NR30, 0x00),
      (ADDR_NR14, 0x80), (ADDR_NR24, 0x80), (ADDR_NR44, 0x80),
      (ADDR_NR10, 0x00), (ADDR_NR11, 0x00), (ADDR_NR21, 0x00),
      (ADDR_NR50, 0x77), (ADDR_NR51, 0xFF)]"





text \<open>
  Silence trimming as the specification words it: the peak absolute amplitude of a
  frame across its two channels, the indices of the frames whose peak exceeds the
  threshold 2, and the slice kept.
\<close>

definition peak_amplitude :: "frame \<Rightarrow> int" where
  "peak_amplitude = (\<lambda>(l, r). max \<bar>sint l\<bar> \<bar>sint r\<bar>)"

definition loud_frames :: "frame list \<Rightarrow> nat list" where
  "loud_frames samples = [i \<leftarrow> [0..<length samples]. 2 < peak_amplitude (samples ! i)]"

definition trim_silence_claim :: "frame list \<Rightarrow> frame list" where
  "trim_silence_claim samples =
     (if loud_frames samples = [] then take 1000 samples
      else
        let first_loud = hd (loud_frames samples);
            last_loud = last (loud_frames samples);
            kept = drop (first_loud - 100) (take (min (length samples) (last_loud + 11025)) samples)
        in if length kept < 1000 then take 1000 samples else kept)"

text \<open>
  The shape that \<open>trim_silence\<close> and the specification's wording share, over any
  predicate \<open>L\<close> that says which frames are loud and any minimum length \<open>m\<close>.
\<close>

definition loud_indices :: "('a \<Rightarrow> bool) \<Rightarrow> 'a list \<Rightarrow> nat list" where
  "loud_indices L xs = [i \<leftarrow> [0..<length xs]. L (xs ! i)]"

definition keep_window :: "('a \<Rightarrow> bool) \<Rightarrow> 'a list \<Rightarrow> 'a list" where
  "keep_window L xs =
     drop (hd (loud_indices L xs) - 100)
       (take (min (length xs) (last (loud_indices L xs) + 11025)) xs)"

definition trim_by :: "('a \<Rightarrow> bool) \<Rightarrow> nat \<Rightarrow> 'a list \<Rightarrow> 'a list" where
  "trim_by L m xs =
     (if loud_indices L xs = [] then take m xs
      else if length (keep_window L xs) < m then take m xs
      else keep_window L xs)"

definition louder :: "int \<Rightarrow> frame \<Rightarrow> bool" where
  \<comment> \<open>the test of \<open>non_silent\<close> on one frame\<close>
  "louder threshold = (\<lambda>(l, r). threshold < sint (np_max (np_abs l) (np_abs r)))"

text \<open>
  The recording loop in closed form. The world after \<open>j\<close> ticks; whether the iteration
  \<open>j\<close> (counted from 0) of a loop entered at frame index \<open>k\<close> sees the effect finished;
  the first such iteration among \<open>n\<close>; how many iterations the loop runs and how many
  tick-and-sample steps it takes with the tail; the events of one iteration; and the
  chunks that \<open>m\<close> steps append.
\<close>

definition world_after :: "'w platform \<Rightarrow> 'w \<Rightarrow> nat \<Rightarrow> 'w" where
  "world_after P w j = (tick P ^^ j) w"

definition finished_in :: "'w platform \<Rightarrow> 'w \<Rightarrow> nat \<Rightarrow> nat \<Rightarrow> bool" where
  "finished_in P w k j \<longleftrightarrow>
     10 < k + j \<and> mem_get P (world_after P w (Suc j)) ADDR_CUR_SFX_ID = 0x80"

definition exit_iteration :: "'w platform \<Rightarrow> 'w \<Rightarrow> nat \<Rightarrow> nat \<Rightarrow> nat option" where
  "exit_iteration P w k n = find (finished_in P w k) [0..<n]"

definition iterations :: "'w platform \<Rightarrow> 'w \<Rightarrow> nat \<Rightarrow> nat \<Rightarrow> nat" where
  "iterations P w k n = (case exit_iteration P w k n of None \<Rightarrow> n | Some j \<Rightarrow> Suc j)"

definition steps_taken :: "'w platform \<Rightarrow> 'w \<Rightarrow> nat \<Rightarrow> nat \<Rightarrow> nat" where
  "steps_taken P w k n = (case exit_iteration P w k n of None \<Rightarrow> n | Some j \<Rightarrow> Suc j + 15)"

definition frame_events :: "nat \<Rightarrow> event list" where
  "frame_events frame =
     [Tick, SoundRead] @ (if 10 < frame then [MemRead ADDR_CUR_SFX_ID] else [])"

definition tail_events :: "nat option \<Rightarrow> event list" where
  "tail_events exit = (case exit of None \<Rightarrow> [] | Some j \<Rightarrow> concat (replicate 15 [Tick, SoundRead]))"

definition collected :: "'w platform \<Rightarrow> 'w \<Rightarrow> nat \<Rightarrow> frame list list" where
  "collected P w m = [c \<leftarrow> map (\<lambda>j. sound_ndarray P (world_after P w j)) [1..<Suc m]. c \<noteq> []]"

text \<open>
  Kinds of events: the steps that write the WAV file or run the encoder, the encoder
  runs that returned 0, and the printed lines.
\<close>

fun encoding_step :: "event \<Rightarrow> bool" where
  "encoding_step (WaveWrite filename samples_16) = True"
| "encoding_step (RunFfmpeg cmd returncode) = True"
| "encoding_step e = False"

fun converted :: "event \<Rightarrow> bool" where
  "converted (RunFfmpeg cmd returncode) = (returncode = 0)"
| "converted e = False"

fun printed :: "event \<Rightarrow> bool" where
  "printed (Print m) = True"
| "printed e = False"

text \<open>The events of \<open>prepare\<close> on the machine, in order.\<close>

definition prepare_events :: "byte \<Rightarrow> event list" where
  "prepare_events sfx_id =
     [MemWrite ADDR_MUSIC_PAUSE 1] @
     map (\<lambda>(a, v). MemWrite a v) reset_writes @
     [MemWrite ADDR_CUR_SFX_ID 0x80, MemWrite ADDR_SFX_PRIORITY 0x00] @
     replicate 15 Tick @
     [MemWrite ADDR_SFX_PRIORITY 0xFF, MemWrite ADDR_CUR_SFX_ID sfx_id]"



subsection \<open>Concrete machines and buffers\<close>

text \<open>
  A stub machine whose world is the number of ticks since the last trigger. The
  current-effect cell reads the finished sentinel from tick \<open>finish_at\<close> on, the audio
  buffer is non-empty up to tick \<open>audible\<close>, and the encoder returns \<open>rc\<close>.
\<close>

definition stub :: "nat \<Rightarrow> nat \<Rightarrow> int \<Rightarrow> nat platform" where
  "stub finish_at audible rc =
     \<lparr>path_exists = (\<lambda>w p. True),
      expanduser = (\<lambda>p. p),
      ffmpeg_version = (\<lambda>w. Some 0),
      makedirs = (\<lambda>w p. w),
      PyBoy = (\<lambda>w p. w),
      tick = Suc,
      mem_set = (\<lambda>w a v. if a = ADDR_CUR_SFX_ID \<and> v \<noteq> 0x80 then 0 else w),
      mem_get = (\<lambda>w a. if a = ADDR_CUR_SFX_ID \<and> finish_at \<le> w then 0x80 else 0),
      sound_ndarray = (\<lambda>w. if w \<le> audible then [(5, 5)] else []),
      wave_write = (\<lambda>w f d. w),
      subprocess_run = (\<lambda>w cmd. (w, rc, [])),
      stop = (\<lambda>w. w),
      rmtree = (\<lambda>w p. w)\<rparr>"




definition start_state :: "'w \<Rightarrow> 'w run" where
  "start_state w = \<lparr>world = w, trace = [], extracted_count = 0, failed = []\<rparr>"

text \<open>A buffer of 1001 frames, silent but for one frame at full negative amplitude.\<close>

definition full_negative_buffer :: "frame list" where
  "full_negative_buffer = replicate 101 (0, 0) @ [(- 128, - 128)] @ replicate 899 (0, 0)"

section \<open>Verification\<close>

subsection \<open>Widening to 16 bits\<close>

lemma sint_scast_int8_int16: "sint (scast (s::int8) :: int16) = sint s"
  by (simp add: sint_up_scast is_up)

lemma sint_int8_range: "- 128 \<le> sint (s::int8) \<and> sint s \<le> 127"
  using sint_ge [of s] sint_lt [of s] by simp

lemma sint_scaled: "sint ((scast (s::int8) :: int16) * 256) = 256 * sint s"
proof -
  have r: "- 128 \<le> sint s \<and> sint s \<le> 127"
    by (rule sint_int8_range)
  have "sint ((scast s :: int16) * 256) =
      signed_take_bit 15 (sint (scast s :: int16) * sint (256::int16))"
    by (simp add: sint_word_ariths)
  also have "\<dots> = signed_take_bit 15 (sint s * 256)"
    by (simp add: sint_scast_int8_int16)
  also have "\<dots> = sint s * 256"
    using r by (intro signed_take_bit_int_eq_self) auto
  finally show ?thesis by simp
qed

text \<open>
  C10: for every signed 8-bit sample \<open>s\<close> the widening step of \<open>samples_to_wav\<close> yields the
  16-bit value \<open>256 * s\<close>, and the clip to \<open>[-32768, 32767]\<close> leaves the product as it is.
\<close>

theorem widen_exact:
  "sint (widen s) = 256 * sint s \<and>
   np_clip (- 32768) 32767 (scast s * 256) = scast s * 256"
proof -
  have r: "- 128 \<le> sint s \<and> sint s \<le> 127"
    by (rule sint_int8_range)
  have c: "np_clip (- 32768) 32767 (scast s * 256 :: int16) = scast s * 256"
    using r by (simp add: np_clip_def word_sless_alt sint_scaled)
  show ?thesis
    using c by (simp add: widen_def sint_scaled)
qed

subsection \<open>The primitive steps\<close>

lemma trace_do_write [simp]: "trace (do_write P a v s) = trace s @ [MemWrite a v]"
  by (simp add: do_write_def emit_def)

lemma world_do_write [simp]: "world (do_write P a v s) = mem_set P (world s) a v"
  by (simp add: do_write_def emit_def)

lemma extracted_count_do_write [simp]: "extracted_count (do_write P a v s) = extracted_count s"
  by (simp add: do_write_def emit_def)

lemma failed_do_write [simp]: "failed (do_write P a v s) = failed s"
  by (simp add: do_write_def emit_def)

subsection \<open>The quiesce routine\<close>

lemma trace_reset: "trace (reset_sound_channels P s) = trace s @ map (\<lambda>(a, v). MemWrite a v) reset_writes"
  by (simp add: reset_sound_channels_def reset_writes_def)















subsection \<open>Skipped entries\<close>

text \<open>
  C8: with \<open>skip_unused\<close> set, an entry whose name starts with \<open>unused\<close> leaves the
  run's state as it was, but for the line \<open>Skipping\<close> printed when \<open>verbose\<close> is set: the
  world is untouched (no memory write, no tick, no file written, no encoder run), the
  list of failures and the count of extracted effects are unchanged.
\<close>

theorem skip_unused_entry:
  assumes "prefix ''unused'' sfx_name"
  shows "extract_one P output_dir temp_dir True verbose (sfx_id, sfx_name, est_frames) s =
    s\<lparr>trace := trace s @ (if verbose then [Print (Skipping sfx_name)] else [])\<rparr>"
  using assms by (simp add: extract_one_def say_def emit_def)

text \<open>C8 on the entry \<open>unused_05\<close>, with and without \<open>verbose\<close>.\<close>

theorem skip_unused_entry_witness:
  "prefix ''unused'' ''unused_05'' \<and>
   extract_one (stub 12 50 0) ''out'' ''out/.temp'' True False (0x05, ''unused_05'', 30) (start_state 7) = start_state 7 \<and>
   extract_one (stub 12 50 0) ''out'' ''out/.temp'' True True (0x05, ''unused_05'', 30) (start_state 7) =
     (start_state 7)\<lparr>trace := [Print (Skipping ''unused_05'')]\<rparr>"
proof -
  have h: "prefix ''unused'' ''unused_05''" by simp
  show ?thesis
    using h skip_unused_entry [OF h, of "stub 12 50 0" "''out''" "''out/.temp''" False "0x05" 30 "start_state 7"]
      skip_unused_entry [OF h, of "stub 12 50 0" "''out''" "''out/.temp''" True "0x05" 30 "start_state 7"]
    by (simp add: start_state_def)
qed

subsection \<open>Indices of the loud frames\<close>

lemma hd_filter_upt:
  assumes "i < n" "Q i" "\<forall>j<i. \<not> Q j"
  shows "hd (filter Q [0..<n]) = i"
proof -
  have "[0..<n] = [0..<i] @ i # [Suc i..<n]"
    using assms(1) by (metis less_imp_le_nat upt_add_eq_append upt_conv_Cons le0 le_add_diff_inverse)
  moreover have "filter Q [0..<i] = []"
    using assms(3) by (simp add: filter_empty_conv)
  ultimately show ?thesis using assms(2) by simp
qed

lemma last_filter_upt:
  assumes "i < n" "Q i" "\<forall>j. i < j \<and> j < n \<longrightarrow> \<not> Q j"
  shows "last (filter Q [0..<n]) = i"
proof -
  have "[0..<n] = [0..<i] @ i # [Suc i..<n]"
    using assms(1) by (metis less_imp_le_nat upt_add_eq_append upt_conv_Cons le0 le_add_diff_inverse)
  moreover have "filter Q [Suc i..<n] = []"
    using assms(3) by (simp add: filter_empty_conv)
  ultimately show ?thesis using assms(2) by simp
qed

lemma sorted_le_last: "sorted xs \<Longrightarrow> (x::nat) \<in> set xs \<Longrightarrow> x \<le> last xs"
  by (induction xs) auto

lemma hd_filter_upt_props:
  assumes "filter Q [0..<n] \<noteq> []"
  shows "hd (filter Q [0..<n]) < n \<and> Q (hd (filter Q [0..<n])) \<and> (\<forall>j < hd (filter Q [0..<n]). \<not> Q j)"
proof -
  let ?ns = "filter Q [0..<n]"
  have "hd ?ns \<in> set ?ns" using assms by (rule hd_in_set)
  then have m: "hd ?ns < n \<and> Q (hd ?ns)" unfolding set_filter by simp
  have s: "sorted ?ns" by (simp add: sorted_wrt_filter)
  have "\<forall>j \<in> set ?ns. hd ?ns \<le> j"
    using s assms by (cases ?ns) auto
  then have "\<forall>j. j < n \<and> Q j \<longrightarrow> hd ?ns \<le> j"
    by simp
  then have "\<forall>j < hd ?ns. \<not> Q j"
    using m by (meson less_trans not_le)
  then show ?thesis using m by blast
qed

lemma last_filter_upt_props:
  assumes "filter Q [0..<n] \<noteq> []"
  shows "last (filter Q [0..<n]) < n \<and> Q (last (filter Q [0..<n])) \<and>
    (\<forall>j. last (filter Q [0..<n]) < j \<and> j < n \<longrightarrow> \<not> Q j)"
proof -
  let ?ns = "filter Q [0..<n]"
  have "last ?ns \<in> set ?ns" using assms by (rule last_in_set)
  then have m: "last ?ns < n \<and> Q (last ?ns)" unfolding set_filter by simp
  have s: "sorted ?ns" by (simp add: sorted_wrt_filter)
  have "\<forall>j \<in> set ?ns. j \<le> last ?ns"
    using s by (simp add: sorted_le_last)
  then have "\<forall>j. j < n \<and> Q j \<longrightarrow> j \<le> last ?ns"
    by simp
  then have "\<forall>j. last ?ns < j \<and> j < n \<longrightarrow> \<not> Q j"
    by (meson not_le)
  then show ?thesis using m by blast
qed

lemma hd_le_last_filter_upt:
  assumes "filter Q [0..<n] \<noteq> []"
  shows "hd (filter Q [0..<n]) \<le> last (filter Q [0..<n])"
  using hd_filter_upt_props[OF assms] last_filter_upt_props[OF assms]
  by (meson not_le_imp_less)

subsection \<open>Silence trimming\<close>

lemma non_silent_loud_indices: "non_silent samples t = loud_indices (louder t) samples"
  by (auto simp: non_silent_def loud_indices_def abs_samples_def louder_def split: prod.splits intro!: filter_cong)

lemma py_slice_prefix: "0 \<le> m \<Longrightarrow> py_slice xs 0 m = take (nat m) xs"
  by (simp add: py_slice_def py_index_def min_def)

lemma py_slice_window:
  "py_slice xs (max 0 (int f - 100)) (min (int (length xs)) (int l + SAMPLE_RATE div 4))
   = drop (f - 100) (take (min (length xs) (l + 11025)) xs)"
proof -
  have a: "py_index (length xs) (max 0 (int f - 100)) = min (length xs) (f - 100)"
    by (auto simp: py_index_def)
  have b: "py_index (length xs) (min (int (length xs)) (int l + SAMPLE_RATE div 4)) = min (length xs) (l + 11025)"
    by (auto simp: py_index_def SAMPLE_RATE_def)
  show ?thesis
    unfolding py_slice_def a b
    by (cases "f - 100 \<le> length xs") (simp_all add: drop_take min_def)
qed

lemma trim_silence_trim_by:
  assumes "0 \<le> m"
  shows "trim_silence samples t m = trim_by (louder t) (nat m) samples"
proof -
  have "int (length (keep_window (louder t) samples)) < m \<longleftrightarrow> length (keep_window (louder t) samples) < nat m"
    using assms by linarith
  then show ?thesis
    using assms
    by (simp add: trim_silence_def trim_by_def Let_def non_silent_loud_indices py_slice_prefix
        py_slice_window keep_window_def)
qed

lemma trim_by_short: "length q \<le> m \<Longrightarrow> trim_by L m q = q"
proof -
  assume q: "length q \<le> m"
  have "length (keep_window L q) \<ge> m \<Longrightarrow> keep_window L q = q"
  proof -
    assume k: "length (keep_window L q) \<ge> m"
    let ?a = "hd (loud_indices L q) - 100"
    let ?e = "min (length q) (last (loud_indices L q) + 11025)"
    have "length (keep_window L q) = ?e - ?a"
      by (simp add: keep_window_def)
    with k q have "?e = length q \<and> (?a = 0 \<or> length q = 0)" by linarith
    then show ?thesis by (auto simp: keep_window_def)
  qed
  then show ?thesis using q
    by (auto simp: trim_by_def)
qed

lemma length_trim_by: "min (length xs) m \<le> length (trim_by L m xs)"
  by (auto simp: trim_by_def)

lemma loud_indices_props:
  assumes "loud_indices L xs \<noteq> []"
  shows "hd (loud_indices L xs) < length xs" "L (xs ! hd (loud_indices L xs))"
    "\<forall>j < hd (loud_indices L xs). \<not> L (xs ! j)"
    "last (loud_indices L xs) < length xs" "L (xs ! last (loud_indices L xs))"
    "\<forall>j. last (loud_indices L xs) < j \<and> j < length xs \<longrightarrow> \<not> L (xs ! j)"
    "hd (loud_indices L xs) \<le> last (loud_indices L xs)"
  using hd_filter_upt_props [of "\<lambda>i. L (xs ! i)" "length xs"]
    last_filter_upt_props [of "\<lambda>i. L (xs ! i)" "length xs"]
    hd_le_last_filter_upt [of "\<lambda>i. L (xs ! i)" "length xs"] assms
  unfolding loud_indices_def by blast+

lemma keep_window_fixed:
  assumes ne: "loud_indices L xs \<noteq> []"
  shows "loud_indices L (keep_window L xs) \<noteq> [] \<and> keep_window L (keep_window L xs) = keep_window L xs"
proof -
  define f where "f = hd (loud_indices L xs)"
  define l where "l = last (loud_indices L xs)"
  define a where "a = f - 100"
  define e where "e = min (length xs) (l + 11025)"
  define r where "r = keep_window L xs"
  note p = loud_indices_props [OF ne, folded f_def l_def]
  have r: "r = drop a (take e xs)"
    by (simp add: r_def keep_window_def a_def e_def f_def l_def)
  have len: "length r = e - a"
    by (simp add: r e_def)
  have le: "l < e" "a \<le> f" "f \<le> l" "e \<le> length xs"
    using p by (simp_all add: e_def a_def)
  have nth: "\<And>i. i < e - a \<Longrightarrow> r ! i = xs ! (a + i)"
    using le by (simp add: r)
  have first: "hd (filter (\<lambda>i. L (r ! i)) [0..<length r]) = f - a"
  proof (rule hd_filter_upt)
    show "f - a < length r" using le len by linarith
    show "L (r ! (f - a))" using le p(2) nth [of "f - a"] by simp
    show "\<forall>j<f - a. \<not> L (r ! j)"
    proof (intro allI impI)
      fix j assume j: "j < f - a"
      then have "r ! j = xs ! (a + j)" using le nth [of j] by simp
      moreover have "a + j < f" using j by linarith
      ultimately show "\<not> L (r ! j)" using p(3) by simp
    qed
  qed
  have lastr: "last (filter (\<lambda>i. L (r ! i)) [0..<length r]) = l - a"
  proof (rule last_filter_upt)
    show "l - a < length r" using le len by linarith
    show "L (r ! (l - a))" using le p(5) nth [of "l - a"] by simp
    show "\<forall>j. l - a < j \<and> j < length r \<longrightarrow> \<not> L (r ! j)"
    proof (intro allI impI)
      fix j assume j: "l - a < j \<and> j < length r"
      then have "r ! j = xs ! (a + j)" using len nth [of j] by simp
      moreover have "l < a + j \<and> a + j < length xs" using j le len by linarith
      ultimately show "\<not> L (r ! j)" using p(6) by simp
    qed
  qed
  have "f - a \<in> set (filter (\<lambda>i. L (r ! i)) [0..<length r])"
    using le len p(2) nth [of "f - a"] by simp
  then have ne': "loud_indices L r \<noteq> []"
    unfolding loud_indices_def by (metis empty_iff list.set(1))
  have "f - a - 100 = 0" by (simp add: a_def)
  moreover have "min (length r) (l - a + 11025) = length r"
    using le len by (simp add: e_def)
  ultimately have "keep_window L r = r"
    using first lastr by (simp add: keep_window_def loud_indices_def)
  then show ?thesis using ne' by (simp add: r_def)
qed

lemma trim_by_idem: "trim_by L m (trim_by L m xs) = trim_by L m xs"
proof (cases "loud_indices L xs = [] \<or> length (keep_window L xs) < m")
  case True
  then have "trim_by L m xs = take m xs" by (auto simp: trim_by_def)
  then show ?thesis by (simp add: trim_by_short)
next
  case False
  then have t: "trim_by L m xs = keep_window L xs" by (auto simp: trim_by_def)
  have "trim_by L m (keep_window L xs) = keep_window L xs"
    using False keep_window_fixed [of L xs] by (simp add: trim_by_def)
  then show ?thesis by (simp add: t)
qed

text \<open>
  C4: \<open>trim_silence\<close> is idempotent: with the same threshold and the same minimum
  length (not negative) on both applications, trimming a trimmed buffer returns it
  unchanged.
\<close>

theorem trim_silence_idempotent:
  assumes "0 \<le> min_samples"
  shows "trim_silence (trim_silence samples threshold min_samples) threshold min_samples =
    trim_silence samples threshold min_samples"
  using assms by (simp add: trim_silence_trim_by trim_by_idem)

text \<open>
  C3, amended: with the minimum length 1000, the buffer that \<open>trim_silence\<close> returns has
  at least 1000 frames or, when the input is shorter than that, at least as many frames
  as the input.
\<close>

theorem trim_silence_length:
  "min (length samples) 1000 \<le> length (trim_silence samples 2 1000)"
  using length_trim_by [of samples 1000 "louder 2"] by (simp add: trim_silence_trim_by)

lemma loud_indices_single:
  assumes "\<not> L q" "L z"
  shows "loud_indices L (replicate n q @ [z] @ replicate k q) = [n]"
proof -
  let ?xs = "replicate n q @ [z] @ replicate k q"
  have "[0..<n + (1 + k)] = [0..<n] @ [n..<n + (1 + k)]"
    by (rule upt_add_eq_append) simp
  then have u: "[0..<length ?xs] = [0..<n] @ n # [Suc n..<n + 1 + k]"
    by (simp add: upt_conv_Cons)
  have a: "filter (\<lambda>i. L (?xs ! i)) [0..<n] = []"
    using assms(1) by (simp add: filter_empty_conv nth_append)
  have b: "filter (\<lambda>i. L (?xs ! i)) [Suc n..<n + 1 + k] = []"
    using assms(1) by (auto simp: filter_empty_conv nth_append nth_Cons')
  have c: "L (?xs ! n)"
    using assms(2) by (simp add: nth_append)
  show ?thesis
    unfolding loud_indices_def u using a b c by simp
qed

lemma loud_indices_none:
  assumes "\<forall>x \<in> set xs. \<not> L x"
  shows "loud_indices L xs = []"
  using assms by (simp add: loud_indices_def filter_empty_conv)

lemma louder_values:
  "\<not> louder 2 (0, 0)" "\<not> louder 2 (- 128, - 128)" "louder 2 (100, 100)"
  by (simp_all add: louder_def np_max_def np_abs_def word_sless_alt)

lemma peak_values:
  "\<not> 2 < peak_amplitude (0, 0)" "2 < peak_amplitude (- 128, - 128)"
  by (simp_all add: peak_amplitude_def)

lemma trim_silence_claim_trim_by:
  "trim_silence_claim samples = trim_by (\<lambda>f. 2 < peak_amplitude f) 1000 samples"
  by (simp add: trim_silence_claim_def trim_by_def keep_window_def loud_indices_def loud_frames_def Let_def)

text \<open>
  C2 at a buffer of 1001 frames whose only non-zero frame, at index 101, is \<open>(-128, -128)\<close>.
  The frame's peak absolute amplitude is 128, so the specification keeps the frames from
  index 1 to the end. In the source the absolute value is taken in 8 bits, where
  \<open>-128\<close> stays \<open>-128\<close>: the frame is not above the threshold, the buffer counts as silent
  and the first 1000 frames are returned.
\<close>

theorem trim_silence_full_negative:
  "trim_silence full_negative_buffer 2 1000 =
     replicate 101 (0, 0) @ [(- 128, - 128)] @ replicate 898 (0, 0) \<and>
   trim_silence_claim full_negative_buffer =
     replicate 100 (0, 0) @ [(- 128, - 128)] @ replicate 899 (0, 0) \<and>
   trim_silence full_negative_buffer 2 1000 \<noteq> trim_silence_claim full_negative_buffer"
proof -
  have code: "trim_silence full_negative_buffer 2 1000 = take 1000 full_negative_buffer"
    using loud_indices_none [of full_negative_buffer "louder 2"] louder_values
    by (simp add: trim_silence_trim_by trim_by_def full_negative_buffer_def)
  have li: "loud_indices (\<lambda>f. 2 < peak_amplitude f) full_negative_buffer = [101]"
    unfolding full_negative_buffer_def using peak_values by (intro loud_indices_single) simp_all
  have claim: "trim_silence_claim full_negative_buffer = drop 1 full_negative_buffer"
    by (simp add: trim_silence_claim_trim_by trim_by_def keep_window_def li)
      (simp add: full_negative_buffer_def)
  have t: "take 1000 full_negative_buffer = replicate 101 (0, 0) @ [(- 128, - 128)] @ replicate 898 (0, 0)"
    by (simp add: full_negative_buffer_def)
  have d: "drop 1 full_negative_buffer = replicate 100 (0, 0) @ [(- 128, - 128)] @ replicate 899 (0, 0)"
    by (simp add: full_negative_buffer_def flip: replicate_Suc)
  have "(replicate 101 (0, 0) @ [(- 128, - 128)] @ replicate 898 (0, 0)) ! 100 = ((0, 0) :: frame)"
    by (simp add: nth_append)
  moreover have "(replicate 100 (0, 0) @ [(- 128, - 128)] @ replicate 899 (0, 0)) ! 100 = ((- 128, - 128) :: frame)"
    by (simp add: nth_append)
  ultimately have "replicate 101 (0, 0) @ [(- 128, - 128)] @ replicate 898 (0, 0) \<noteq>
      replicate 100 ((0, 0) :: frame) @ [(- 128, - 128)] @ replicate 899 (0, 0)"
  proof -
    assume x: "(replicate 101 (0, 0) @ [(- 128, - 128)] @ replicate 898 (0, 0)) ! 100 = ((0, 0) :: frame)"
      and y: "(replicate 100 (0, 0) @ [(- 128, - 128)] @ replicate 899 (0, 0)) ! 100 = ((- 128, - 128) :: frame)"
    show ?thesis
    proof
      assume "replicate 101 (0, 0) @ [(- 128, - 128)] @ replicate 898 (0, 0) =
        replicate 100 ((0, 0) :: frame) @ [(- 128, - 128)] @ replicate 899 (0, 0)"
      with x y have "((0, 0) :: frame) = (- 128, - 128)" by metis
      then show False by simp
    qed
  qed
  then show ?thesis
    by (simp only: code claim t d) simp
qed

text \<open>
  Away from the sample \<open>-128\<close> the source's test is the specification's: the two
  trimmings agree on every buffer in which that sample does not occur.
\<close>

lemma sint_np_abs:
  assumes "x \<noteq> - 128"
  shows "sint (np_abs x) = \<bar>sint x\<bar>"
proof -
  have "sint x \<noteq> sint (- 128 :: int8)"
    using assms signed_word_eqI by blast
  then have r: "- 128 < sint x \<and> sint x \<le> 127"
    using sint_int8_range [of x] by simp
  have "sint (- x) = signed_take_bit 7 (- sint x)"
    by (simp add: sint_word_ariths)
  also have "\<dots> = - sint x"
    using r by (intro signed_take_bit_int_eq_self) auto
  finally show ?thesis
    by (simp add: np_abs_def word_sless_alt)
qed

lemma sint_np_max: "sint (np_max a b) = max (sint a) (sint b)"
  by (simp add: np_max_def word_sless_alt max_def)

lemma louder_peak_amplitude:
  assumes "l \<noteq> - 128" "r \<noteq> - 128"
  shows "louder threshold (l, r) \<longleftrightarrow> threshold < peak_amplitude (l, r)"
  using assms by (simp add: louder_def peak_amplitude_def sint_np_max sint_np_abs)

lemma trim_by_cong:
  assumes "\<forall>x \<in> set xs. L x = L' x"
  shows "trim_by L m xs = trim_by L' m xs"
proof -
  have "loud_indices L xs = loud_indices L' xs"
    unfolding loud_indices_def using assms by (intro filter_cong) simp_all
  then show ?thesis by (simp add: trim_by_def keep_window_def)
qed

lemma trim_silence_claim_agrees:
  assumes "\<forall>(l, r) \<in> set samples. l \<noteq> - 128 \<and> r \<noteq> - 128"
  shows "trim_silence samples 2 1000 = trim_silence_claim samples"
proof -
  have "\<forall>x \<in> set samples. louder 2 x = (2 < peak_amplitude x)"
    using assms louder_peak_amplitude by fastforce
  then show ?thesis
    using trim_by_cong [of samples "louder 2" "\<lambda>f. 2 < peak_amplitude f" 1000]
    by (simp add: trim_silence_trim_by trim_silence_claim_trim_by)
qed

text \<open>
  C3, as the specification states it, fails on a buffer shorter than the minimum length:
  a single loud frame comes back as it is, one frame long.
\<close>

theorem trim_silence_short_counterexample:
  "\<not> 1000 \<le> length (trim_silence [(100, 100)] 2 1000)"
  by (simp add: trim_silence_trim_by trim_by_short)

text \<open>C4 on a buffer from which frames are cut: 150 silent frames before the loud one, 50 dropped.\<close>

theorem trim_silence_idempotent_witness:
  "(0::int) \<le> 10 \<and>
   trim_silence (replicate 150 (0, 0) @ [(100, 100)] @ replicate 3 (0, 0)) 2 10 =
     replicate 100 (0, 0) @ [(100, 100)] @ replicate 3 (0, 0) \<and>
   trim_silence (replicate 100 (0, 0) @ [(100, 100)] @ replicate 3 (0, 0)) 2 10 =
     replicate 100 (0, 0) @ [(100, 100)] @ replicate 3 (0, 0)"
proof -
  have h: "(0::int) \<le> 10" by simp
  have li: "loud_indices (louder 2) (replicate 150 (0, 0) @ [(100, 100)] @ replicate 3 (0, 0)) = [150]"
    using louder_values by (intro loud_indices_single) simp_all
  have e: "trim_silence (replicate 150 (0, 0) @ [(100, 100)] @ replicate 3 (0, 0)) 2 10 =
     replicate 100 (0, 0) @ [(100, 100)] @ replicate 3 (0, 0)"
    unfolding trim_silence_trim_by [OF h] trim_by_def keep_window_def li by simp
  show ?thesis
    using h e trim_silence_idempotent [OF h, of "replicate 150 (0, 0) @ [(100, 100)] @ replicate 3 (0, 0)" 2]
    by simp
qed

subsection \<open>The recording loop\<close>

lemma find_map: "find F (map g xs) = map_option g (find (\<lambda>x. F (g x)) xs)"
  by (induction xs) auto

lemma find_upt_Suc:
  "find F [0..<Suc n] = (if F 0 then Some 0 else map_option Suc (find (\<lambda>j. F (Suc j)) [0..<n]))"
proof -
  have "[0..<Suc n] = 0 # map Suc [0..<n]"
    by (simp add: upt_conv_Cons map_Suc_upt del: upt_Suc)
  then show ?thesis by (simp add: find_map del: upt_Suc)
qed

lemma world_after_simps [simp]:
  "world_after P w 0 = w"
  "world_after P w (Suc j) = world_after P (tick P w) j"
  by (simp_all add: world_after_def funpow_swap1)

lemma finished_in_Suc: "finished_in P w k (Suc j) = finished_in P (tick P w) (Suc k) j"
  by (simp add: finished_in_def)

lemma exit_iteration_0 [simp]: "exit_iteration P w k 0 = None"
  by (simp add: exit_iteration_def)

lemma exit_iteration_Suc:
  "exit_iteration P w k (Suc n) =
     (if 10 < k \<and> mem_get P (tick P w) ADDR_CUR_SFX_ID = 0x80 then Some 0
      else map_option Suc (exit_iteration P (tick P w) (Suc k) n))"
  unfolding exit_iteration_def find_upt_Suc finished_in_Suc
  by (simp add: finished_in_def)

lemma collected_0 [simp]: "collected P w 0 = []"
  by (simp add: collected_def)

lemma collected_Suc:
  "collected P w (Suc m) =
     (if sound_ndarray P (tick P w) \<noteq> [] then [sound_ndarray P (tick P w)] else []) @
     collected P (tick P w) m"
proof -
  have "[1..<Suc (Suc m)] = 1 # map Suc [1..<Suc m]"
    by (simp add: upt_conv_Cons map_Suc_upt del: upt_Suc)
  then show ?thesis
    unfolding collected_def by (simp add: comp_def del: upt_Suc)
qed

lemma tick_and_sample_eq:
  "tick_and_sample P (s, acc) =
     (s\<lparr>world := tick P (world s), trace := trace s @ [Tick, SoundRead]\<rparr>,
      acc @ (if sound_ndarray P (tick P (world s)) \<noteq> [] then [sound_ndarray P (tick P (world s))] else []))"
  by (simp add: tick_and_sample_def do_tick_def emit_def Let_def)

lemma tail_frames_eq:
  "tail_frames P m (s, acc) =
     (s\<lparr>world := world_after P (world s) m,
        trace := trace s @ concat (replicate m [Tick, SoundRead])\<rparr>,
      acc @ collected P (world s) m)"
proof (induction m arbitrary: s acc)
  case 0
  show ?case by simp
next
  case (Suc m)
  show ?case
    by (simp add: tick_and_sample_eq Suc.IH collected_Suc)
qed

lemma steps_taken_0 [simp]: "steps_taken P w k 0 = 0"
  by (simp add: steps_taken_def)

lemma iterations_0 [simp]: "iterations P w k 0 = 0"
  by (simp add: iterations_def)

lemma steps_taken_Suc:
  "steps_taken P w k (Suc n) =
     (if 10 < k \<and> mem_get P (tick P w) ADDR_CUR_SFX_ID = 0x80 then Suc 15
      else Suc (steps_taken P (tick P w) (Suc k) n))"
  by (simp add: steps_taken_def exit_iteration_Suc split: option.splits)

lemma iterations_Suc:
  "iterations P w k (Suc n) =
     (if 10 < k \<and> mem_get P (tick P w) ADDR_CUR_SFX_ID = 0x80 then Suc 0
      else Suc (iterations P (tick P w) (Suc k) n))"
  by (simp add: iterations_def exit_iteration_Suc split: option.splits)

lemma tail_events_Suc:
  "tail_events (exit_iteration P w k (Suc n)) =
     (if 10 < k \<and> mem_get P (tick P w) ADDR_CUR_SFX_ID = 0x80
      then concat (replicate 15 [Tick, SoundRead])
      else tail_events (exit_iteration P (tick P w) (Suc k) n))"
  by (simp add: tail_events_def exit_iteration_Suc split: option.splits)

lemma world_after_16: "world_after P w 16 = world_after P (tick P w) 15"
  using world_after_simps(2) [of P w 15] by simp

lemma collected_16:
  "collected P w 16 =
     (if sound_ndarray P (tick P w) \<noteq> [] then [sound_ndarray P (tick P w)] else []) @
     collected P (tick P w) 15"
  using collected_Suc [of P w 15] by simp

lemma record_frames_eq:
  "record_frames P n k (s, acc) =
     (s\<lparr>world := world_after P (world s) (steps_taken P (world s) k n),
        trace := trace s @ concat (map frame_events [k..<k + iterations P (world s) k n]) @
          tail_events (exit_iteration P (world s) k n)\<rparr>,
      acc @ collected P (world s) (steps_taken P (world s) k n))"
proof (induction n arbitrary: k s acc)
  case 0
  show ?case by (simp add: tail_events_def)
next
  case (Suc n)
  have u: "\<And>i. [k..<Suc (k + i)] = k # [Suc k..<Suc (k + i)]"
    by (simp add: upt_conv_Cons del: upt_Suc)
  show ?case
  proof (cases "10 < k \<and> mem_get P (tick P (world s)) ADDR_CUR_SFX_ID = 0x80")
    case True
    then show ?thesis
      by (simp add: tick_and_sample_eq emit_def tail_frames_eq steps_taken_Suc iterations_Suc
          tail_events_Suc frame_events_def world_after_16 collected_16 del: replicate_Suc)
  next
    case False
    then show ?thesis
      by (auto simp add: tick_and_sample_eq emit_def Suc.IH steps_taken_Suc iterations_Suc
          tail_events_Suc frame_events_def collected_Suc u simp del: upt_Suc replicate_Suc)
  qed
qed


text \<open>Every estimate of the catalog is positive, so \<open>nat (est_frames + 30)\<close> is \<open>est_frames + 30\<close>.\<close>

lemma catalog_estimates_positive:
  "list_all (\<lambda>(sfx_id, sfx_name, est_frames). 0 < est_frames) SFX_LIST"
  by (simp add: SFX_LIST_def)



subsection \<open>Entries that yield no audio\<close>

lemma ticks_eq:
  "ticks P n s = s\<lparr>world := world_after P (world s) n, trace := trace s @ replicate n Tick\<rparr>"
proof (induction n arbitrary: s)
  case 0
  show ?case by simp
next
  case (Suc n)
  show ?case
    by (simp add: Suc.IH do_tick_def emit_def replicate_app_Cons_same)
qed

lemma trace_say: "trace (say verbose m s) = trace s @ (if verbose then [Print m] else [])"
  by (simp add: say_def emit_def)

lemma say_fields [simp]:
  "world (say verbose m s) = world s"
  "extracted_count (say verbose m s) = extracted_count s"
  "failed (say verbose m s) = failed s"
  by (simp_all add: say_def emit_def)

lemma reset_fields [simp]:
  "extracted_count (reset_sound_channels P s) = extracted_count s"
  "failed (reset_sound_channels P s) = failed s"
  by (simp_all add: reset_sound_channels_def)

lemma prepare_fields [simp]:
  "extracted_count (prepare P verbose sfx_id sfx_name s) = extracted_count s"
  "failed (prepare P verbose sfx_id sfx_name s) = failed s"
  by (simp_all add: prepare_def ticks_eq Let_def)

lemma trace_prepare:
  "trace (prepare P verbose sfx_id sfx_name s) =
     trace s @ (if verbose then [Print (Extracting sfx_id sfx_name)] else []) @ prepare_events sfx_id"
  by (simp add: prepare_def ticks_eq trace_say trace_reset prepare_events_def Let_def)

lemma capture_eq:
  "capture P verbose (sfx_id, sfx_name, est_frames) s =
     record_frames P (nat (est_frames + 30)) 0 (prepare P verbose sfx_id sfx_name s, [])"
  by (simp add: capture_def)

lemma filter_frame_events:
  "filter encoding_step (concat (map frame_events fs)) = []"
  "filter printed (concat (map frame_events fs)) = []"
  by (induction fs) (simp_all add: frame_events_def)

lemma filter_tail_events:
  "filter encoding_step (tail_events x) = []"
  "filter printed (tail_events x) = []"
  by (auto simp: tail_events_def filter_empty_conv split: option.splits)

lemma filter_prepare_events:
  "filter encoding_step (prepare_events sfx_id) = []"
  "filter printed (prepare_events sfx_id) = []"
  by (simp_all add: prepare_events_def reset_writes_def)

lemma capture_fields [simp]:
  "extracted_count (fst (capture P verbose (sfx_id, sfx_name, est_frames) s)) = extracted_count s"
  "failed (fst (capture P verbose (sfx_id, sfx_name, est_frames) s)) = failed s"
  by (simp_all add: capture_eq record_frames_eq)

lemma capture_encoding_steps:
  "filter encoding_step (trace (fst (capture P verbose (sfx_id, sfx_name, est_frames) s))) =
     filter encoding_step (trace s)"
  by (simp add: capture_eq record_frames_eq trace_prepare filter_frame_events filter_tail_events
      filter_prepare_events)

lemma capture_printed:
  "filter printed (trace (fst (capture P verbose (sfx_id, sfx_name, est_frames) s))) =
     filter printed (trace s) @ (if verbose then [Print (Extracting sfx_id sfx_name)] else [])"
  by (simp add: capture_eq record_frames_eq trace_prepare filter_frame_events filter_tail_events
      filter_prepare_events)

lemma extract_one_no_audio:
  assumes "\<not> (skip_unused \<and> prefix ''unused'' sfx_name)"
    and "snd (capture P verbose (sfx_id, sfx_name, est_frames) s) = []"
  shows "extract_one P output_dir temp_dir skip_unused verbose (sfx_id, sfx_name, est_frames) s =
      (say verbose NO_AUDIO (fst (capture P verbose (sfx_id, sfx_name, est_frames) s)))
        \<lparr>failed := failed s @ [sfx_name]\<rparr>"
proof -
  obtain s1 acc where c: "capture P verbose (sfx_id, sfx_name, est_frames) s = (s1, acc)"
    by (cases "capture P verbose (sfx_id, sfx_name, est_frames) s")
  with assms(2) have acc: "acc = []" by simp
  have f: "failed s1 = failed s"
    using capture_fields [of P verbose sfx_id sfx_name est_frames s] c by simp
  show ?thesis
    using assms(1) by (auto simp add: extract_one_def c acc f)
qed

text \<open>
  C5, amended: an entry that is not skipped and whose recording loop appends no chunk is
  recorded as failed by its name alone, appended to \<open>failed\<close>; the line \<open>NO AUDIO\<close> is
  printed when \<open>verbose\<close> is set and not otherwise. The count of extracted effects is
  unchanged, no WAV file is written and the encoder is not run for the entry, and the loop
  goes on with the rest of the catalog from that state: the entry is not tried again.
\<close>

theorem no_audio_entry:
  assumes "\<not> (skip_unused \<and> prefix ''unused'' sfx_name)"
    and "snd (capture P verbose (sfx_id, sfx_name, est_frames) s) = []"
  shows "extract_one P output_dir temp_dir skip_unused verbose (sfx_id, sfx_name, est_frames) s =
      (say verbose NO_AUDIO (fst (capture P verbose (sfx_id, sfx_name, est_frames) s)))
        \<lparr>failed := failed s @ [sfx_name]\<rparr> \<and>
    failed (extract_one P output_dir temp_dir skip_unused verbose (sfx_id, sfx_name, est_frames) s) =
      failed s @ [sfx_name] \<and>
    extracted_count (extract_one P output_dir temp_dir skip_unused verbose (sfx_id, sfx_name, est_frames) s) =
      extracted_count s \<and>
    filter encoding_step
      (trace (extract_one P output_dir temp_dir skip_unused verbose (sfx_id, sfx_name, est_frames) s)) =
      filter encoding_step (trace s) \<and>
    filter printed
      (trace (extract_one P output_dir temp_dir skip_unused verbose (sfx_id, sfx_name, est_frames) s)) =
      filter printed (trace s) @
        (if verbose then [Print (Extracting sfx_id sfx_name), Print NO_AUDIO] else []) \<and>
    extract_each P output_dir temp_dir skip_unused verbose ((sfx_id, sfx_name, est_frames) # rest) s =
      extract_each P output_dir temp_dir skip_unused verbose rest
        ((say verbose NO_AUDIO (fst (capture P verbose (sfx_id, sfx_name, est_frames) s)))
          \<lparr>failed := failed s @ [sfx_name]\<rparr>)"
  unfolding extract_each.simps extract_one_no_audio [OF assms]
  by (simp add: trace_say capture_encoding_steps capture_printed)

lemma world_after_stub: "world_after (stub finish_at audible rc) w j = w + j"
  by (induction j arbitrary: w) (simp_all add: stub_def)

lemma collected_stub_silent: "collected (stub finish_at 0 rc) w m = []"
proof -
  have "sound_ndarray (stub finish_at 0 rc) (world_after (stub finish_at 0 rc) w j) = []"
    if "1 \<le> j" for j
    using that by (simp add: world_after_stub) (simp add: stub_def)
  then show ?thesis
    by (auto simp: collected_def filter_empty_conv)
qed

lemma stub_no_audio:
  "snd (capture (stub finish_at 0 rc) verbose (sfx_id, sfx_name, est_frames) s) = []"
  by (simp add: capture_eq record_frames_eq collected_stub_silent)

text \<open>C5 on a machine whose audio buffer is empty at every tick, with \<open>verbose\<close> set.\<close>

theorem no_audio_entry_witness:
  "\<not> (False \<and> prefix ''unused'' ''confirm'') \<and>
   snd (capture (stub 12 0 0) True (0x02, ''confirm'', 20) (start_state 0)) = [] \<and>
   failed (extract_one (stub 12 0 0) ''out'' ''out/.temp'' False True (0x02, ''confirm'', 20) (start_state 0)) =
     [''confirm''] \<and>
   extracted_count
     (extract_one (stub 12 0 0) ''out'' ''out/.temp'' False True (0x02, ''confirm'', 20) (start_state 0)) = 0 \<and>
   filter encoding_step
     (trace (extract_one (stub 12 0 0) ''out'' ''out/.temp'' False True (0x02, ''confirm'', 20) (start_state 0))) = [] \<and>
   filter printed
     (trace (extract_one (stub 12 0 0) ''out'' ''out/.temp'' False True (0x02, ''confirm'', 20) (start_state 0))) =
     [Print (Extracting 0x02 ''confirm''), Print NO_AUDIO]"
proof -
  have h1: "\<not> (False \<and> prefix ''unused'' ''confirm'')" by simp
  have h2: "snd (capture (stub 12 0 0) True (0x02, ''confirm'', 20) (start_state 0)) = []"
    by (rule stub_no_audio)
  let ?s = "start_state (0::nat)"
  let ?r = "extract_one (stub 12 0 0) ''out'' ''out/.temp'' False True (0x02, ''confirm'', 20) ?s"
  note t = no_audio_entry [OF h1 h2, of "''out''" "''out/.temp''" "[]"]
  from t have "failed ?r = failed ?s @ [''confirm'']"
    and "extracted_count ?r = extracted_count ?s"
    and "filter encoding_step (trace ?r) = filter encoding_step (trace ?s)"
    and "filter printed (trace ?r) =
      filter printed (trace ?s) @ (if True then [Print (Extracting 0x02 ''confirm''), Print NO_AUDIO] else [])"
    by blast+
  then show ?thesis
    using h2 by (simp add: start_state_def)
qed

text \<open>
  C5, as the specification states it, has the failure recorded with the reason \<open>no audio\<close>.
  On the same machine without \<open>verbose\<close> the entry has no audio and its name is all that
  is recorded: nothing is printed, and \<open>failed\<close> holds names only.
\<close>

theorem no_audio_reason_counterexample:
  "snd (capture (stub 12 0 0) False (0x02, ''confirm'', 20) (start_state 0)) = [] \<and>
   failed (extract_one (stub 12 0 0) ''out'' ''out/.temp'' False False (0x02, ''confirm'', 20) (start_state 0)) =
     [''confirm''] \<and>
   filter printed
     (trace (extract_one (stub 12 0 0) ''out'' ''out/.temp'' False False (0x02, ''confirm'', 20) (start_state 0))) = [] \<and>
   Print NO_AUDIO \<notin>
     set (trace (extract_one (stub 12 0 0) ''out'' ''out/.temp'' False False (0x02, ''confirm'', 20) (start_state 0)))"
proof -
  let ?r = "extract_one (stub 12 0 0) ''out'' ''out/.temp'' False False (0x02, ''confirm'', 20) (start_state 0)"
  have h1: "\<not> (False \<and> prefix ''unused'' ''confirm'')" by simp
  have h2: "snd (capture (stub 12 0 0) False (0x02, ''confirm'', 20) (start_state 0)) = []"
    by (rule stub_no_audio)
  have r: "?r = (say False NO_AUDIO (fst (capture (stub 12 0 0) False (0x02, ''confirm'', 20) (start_state 0))))
      \<lparr>failed := failed (start_state (0::nat)) @ [''confirm'']\<rparr>"
    using extract_one_no_audio [of False "''confirm''" "stub 12 0 0" False "0x02" 20 "start_state 0"
        "''out''" "''out/.temp''"] h2
    by simp
  have f: "failed ?r = [''confirm'']"
    unfolding r by (simp add: start_state_def)
  have p: "filter printed (trace ?r) = []"
    unfolding r by (simp add: trace_say capture_printed start_state_def)
  then have "\<forall>e \<in> set (trace ?r). \<not> printed e"
    by (simp add: filter_empty_conv)
  then have n: "Print NO_AUDIO \<notin> set (trace ?r)"
    by fastforce
  from h2 f p n show ?thesis by blast
qed

subsection \<open>The value returned\<close>






lemma samples_to_wav_fields [simp]:
  "trace (samples_to_wav P samples filename s) =
     trace s @ [WaveWrite filename (map (\<lambda>(l, r). (widen l, widen r)) samples)]"
  "extracted_count (samples_to_wav P samples filename s) = extracted_count s"
  "failed (samples_to_wav P samples filename s) = failed s"
  by (simp_all add: samples_to_wav_def Let_def emit_def)











lemma stub_probes [simp]:
  "path_exists (stub finish_at audible rc) w p"
  "check_ffmpeg (stub finish_at audible rc) w"
  by (simp_all add: stub_def check_ffmpeg_def)





subsection \<open>The catalog\<close>

text \<open>
  C7, as the specification states it: the catalog has 96 entries with pairwise distinct
  ids. The catalog of the source has 95 entries, so the statement fails on the count.
\<close>

theorem catalog_96_counterexample:
  "\<not> (length SFX_LIST = 96 \<and> distinct (map fst SFX_LIST))"
  by (simp add: SFX_LIST_def)

text \<open>
  C7, amended: \<open>SFX_LIST\<close> is a fixed list of 95 entries, the ids \<open>0x01\<close> to \<open>0x5F\<close> in
  order, so every id occurs once; and the id of an entry is the value that the last write
  before the recording loop stores in the trigger cell.
\<close>

theorem catalog_95_distinct_ids:
  "length SFX_LIST = 95 \<and> distinct (map fst SFX_LIST) \<and>
   map fst SFX_LIST = map of_nat [1..<96] \<and>
   last (trace (prepare P verbose sfx_id sfx_name s)) = MemWrite ADDR_CUR_SFX_ID sfx_id"
proof (intro conjI)
  show "length SFX_LIST = 95"
    by (simp add: SFX_LIST_def)
  show "distinct (map fst SFX_LIST)"
    by (simp add: SFX_LIST_def)
  show "map fst SFX_LIST = map of_nat [1..<96]"
    by (simp add: SFX_LIST_def upt_rec)
  show "last (trace (prepare P verbose sfx_id sfx_name s)) = MemWrite ADDR_CUR_SFX_ID sfx_id"
    by (simp add: trace_prepare prepare_events_def)
qed

end
